theory Spec2Isabelle
  imports Main
begin

section \<open>Values\<close>

text \<open>
  Go's \<open>[]byte\<close> and \<open>string\<close> are byte sequences; Go's \<open>int\<close> is 64 bits wide, and the
  code only compares and copies status codes, so \<open>int\<close> is exact here. A Go \<open>error\<close> or
  the value given to \<open>panic\<close> is a \<open>failure\<close>; a nil error is \<open>None\<close>.
\<close>

type_synonym bytes = string

datatype failure = Failure string

section \<open>The engine's response writer\<close>

text \<open>
  \<open>gin.ResponseWriter\<close> is the engine's writer, outside the repository. The state below is
  what the wrapper can observe of it: the pending status (\<open>200\<close> when a request starts),
  the status line that went out on the wire (\<open>None\<close> until the header is committed) and
  the body bytes sent. In the engine, \<open>WriteHeader\<close> only records the pending status and
  is ignored once the header is out; \<open>WriteHeaderNow\<close> commits the pending status;
  \<open>Write\<close> commits it if needed and sends the bytes; \<open>Written\<close> tells whether the
  header is out.
\<close>

record responseWriter =
  w_status :: int
  w_committed :: "int option"
  w_body :: bytes

definition gin_Written :: "responseWriter \<Rightarrow> bool" where
  "gin_Written w = (w_committed w \<noteq> None)"

definition gin_WriteHeader :: "int \<Rightarrow> responseWriter \<Rightarrow> responseWriter" where
  "gin_WriteHeader code w =
     (if code > 0 \<and> w_status w \<noteq> code
      then (if gin_Written w then w else w\<lparr>w_status := code\<rparr>)
      else w)"

definition gin_WriteHeaderNow :: "responseWriter \<Rightarrow> responseWriter" where
  "gin_WriteHeaderNow w =
     (if \<not> gin_Written w then w\<lparr>w_committed := Some (w_status w)\<rparr> else w)"

definition gin_Write :: "bytes \<Rightarrow> responseWriter \<Rightarrow> responseWriter" where
  "gin_Write d w = (let w' = gin_WriteHeaderNow w in w'\<lparr>w_body := w_body w' @ d\<rparr>)"

text \<open>The writer of a request that has just been accepted.\<close>

definition new_writer :: responseWriter where
  "new_writer = \<lparr>w_status = 200, w_committed = None, w_body = []\<rparr>"

section \<open>responseStatusRewriter\<close>

text \<open>
  \<open>responseStatusRewriter\<close> embeds a \<open>gin.ResponseWriter\<close> and holds \<open>statusCode\<close>. It
  overrides \<open>WriteHeader\<close>, \<open>Write\<close>, \<open>WriteHeaderNow\<close> and \<open>Status\<close>; \<open>Written\<close> is
  promoted from the embedded writer. \<open>ctx.Writer\<close> is either the engine's writer or a
  rewriter around another writer. The \<open>(int, error)\<close> result of \<open>Write\<close> is not used
  by the code under study and is left out.
\<close>

datatype ResponseWriter =
    GinWriter responseWriter
  | StatusRewriter ResponseWriter int

fun Written :: "ResponseWriter \<Rightarrow> bool" where
  "Written (GinWriter w) = gin_Written w"
| "Written (StatusRewriter w s) = Written w"

fun WriteHeader :: "int \<Rightarrow> ResponseWriter \<Rightarrow> ResponseWriter" where
  "WriteHeader code (GinWriter w) = GinWriter (gin_WriteHeader code w)"
| "WriteHeader code (StatusRewriter w s) = StatusRewriter w code"

lemma size_WriteHeader: "size (WriteHeader code w) = size w"
  by (cases w) simp_all

function Write :: "bytes \<Rightarrow> ResponseWriter \<Rightarrow> ResponseWriter" where
  "Write d (GinWriter w) = GinWriter (gin_Write d w)"
| "Write d (StatusRewriter w s) =
     StatusRewriter (Write d (if \<not> Written w then WriteHeader s w else w)) s"
  by pat_completeness auto
termination
  by (relation "measure (\<lambda>(d, w). size w)") (auto simp: size_WriteHeader)

fun WriteHeaderNow :: "ResponseWriter \<Rightarrow> ResponseWriter" where
  "WriteHeaderNow (GinWriter w) = GinWriter (gin_WriteHeaderNow w)"
| "WriteHeaderNow (StatusRewriter w s) =
     StatusRewriter (if \<not> Written w then WriteHeader s w else w) s"

fun Status :: "ResponseWriter \<Rightarrow> int" where
  "Status (GinWriter w) = w_status w"
| "Status (StatusRewriter w s) = s"

text \<open>The engine's own writer under the wrappers: what the client sees.\<close>

fun wire :: "ResponseWriter \<Rightarrow> responseWriter" where
  "wire (GinWriter w) = w"
| "wire (StatusRewriter w s) = wire w"

section \<open>The engine's request context\<close>

text \<open>
  \<open>gin.Context\<close>, as far as the wrapper uses it: the current writer \<open>ctx.Writer\<close>, whether
  the handler chain is aborted, the calls made on the context so far, in order
  (cookies and headers end up in the header map of the engine's writer; the log keeps
  their order of application), and the position in the handler chain. \<open>Status\<close> hands
  the code to the writer; \<open>Data\<close> hands the code to the writer and then writes the
  body, except for the status codes that allow no body (1xx, 204, 304), where the engine
  only flushes the header.

  The engine keeps the position as an index into the chain, and \<open>Abort\<close> moves the
  index past the end. Here the same position is \<open>remaining\<close>, the number of handlers of
  the chain that have not been started: \<open>Abort\<close> sets it to \<open>0\<close>.
\<close>

datatype ResponseHeader = NewHeader string string

datatype ResponseCookie = NewCookie string string int string string bool bool

datatype call =
    LogSetCookie ResponseCookie
  | LogHeader ResponseHeader
  | LogData int string bytes
  | LogStatus int

record ctx =
  Writer :: ResponseWriter
  aborted :: bool
  calls :: "call list"
  remaining :: nat

type_synonym result = "(failure \<times> ctx) + ctx"

definition bodyAllowedForStatus :: "int \<Rightarrow> bool" where
  "bodyAllowedForStatus code =
     (if 100 \<le> code \<and> code \<le> 199 then False
      else if code = 204 then False
      else if code = 304 then False
      else True)"

definition ctx_SetCookie :: "ResponseCookie \<Rightarrow> ctx \<Rightarrow> ctx" where
  "ctx_SetCookie v c = c\<lparr>calls := calls c @ [LogSetCookie v]\<rparr>"

definition ctx_Header :: "ResponseHeader \<Rightarrow> ctx \<Rightarrow> ctx" where
  "ctx_Header v c = c\<lparr>calls := calls c @ [LogHeader v]\<rparr>"

definition ctx_Status :: "int \<Rightarrow> ctx \<Rightarrow> ctx" where
  "ctx_Status code c =
     c\<lparr>Writer := WriteHeader code (Writer c), calls := calls c @ [LogStatus code]\<rparr>"

definition ctx_Data :: "int \<Rightarrow> string \<Rightarrow> bytes \<Rightarrow> ctx \<Rightarrow> ctx" where
  "ctx_Data code mime d c =
     (let w = WriteHeader code (Writer c)
      in c\<lparr>Writer := (if bodyAllowedForStatus code then Write d w else WriteHeaderNow w),
            calls := calls c @ [LogData code mime d]\<rparr>)"

definition ctx_Abort :: "ctx \<Rightarrow> ctx" where
  "ctx_Abort c = c\<lparr>aborted := True, remaining := 0\<rparr>"

definition ctx_IsAborted :: "ctx \<Rightarrow> bool" where
  "ctx_IsAborted c = aborted c"

definition ctx_AbortWithStatus :: "int \<Rightarrow> ctx \<Rightarrow> ctx" where
  "ctx_AbortWithStatus code c =
     (let c1 = ctx_Status code c
      in ctx_Abort (c1\<lparr>Writer := WriteHeaderNow (Writer c1)\<rparr>))"

text \<open>The context of a request that has just been accepted, on a matched route.\<close>

definition new_ctx :: ctx where
  "new_ctx = \<lparr>Writer = GinWriter new_writer, aborted = False, calls = [], remaining = 0\<rparr>"

section \<open>Response and ResponseData\<close>

record ResponseData =
  data :: bytes
  contentType :: string
  statusCode :: int
  headers :: "ResponseHeader list"
  cookies :: "ResponseCookie list"

definition NewResponseData :: ResponseData where
  "NewResponseData = \<lparr>data = [], contentType = [], statusCode = 0, headers = [], cookies = []\<rparr>"

text \<open>
  \<open>Response\<close> is an interface with the one method \<open>Data\<close>. Its implementations are
  \<open>commonResp\<close> (a raw function \<open>ginFn\<close> on the engine context, possibly nil, and a
  \<open>responseData\<close>), \<open>restResp\<close> (a \<open>responseData\<close>) and whatever a user defines
  (\<open>userResp\<close>, given by what its \<open>Data\<close> returns). A nil pointer is \<open>None\<close>. A raw
  function may panic, as any Go function may.
\<close>

datatype Response =
    commonResp "(ctx \<Rightarrow> (failure \<times> ctx) + ctx) option" "ResponseData option"
  | restResp "ResponseData option"
  | userResp "ResponseData option"

fun Data :: "Response \<Rightarrow> ResponseData option" where
  "Data (commonResp ginFn responseData) = responseData"
| "Data (restResp responseData) = responseData"
| "Data (userResp responseData) = responseData"

text \<open>
  The raw function that \<open>httpResponse\<close> finds: the response is a \<open>commonResp\<close> and its
  \<open>ginFn\<close> is not nil.
\<close>

fun rawCallback :: "Response \<Rightarrow> (ctx \<Rightarrow> result) option" where
  "rawCallback (commonResp ginFn responseData) = ginFn"
| "rawCallback response = None"

definition MIMEJSON :: string where
  "MIMEJSON = ''application/json''"

definition MIMEPlain :: string where
  "MIMEPlain = ''text/plain''"

text \<open>
  \<open>httpResponse\<close>. A nil \<open>Response\<close> fails the type assertion with \<open>ok = false\<close> and then
  panics at \<open>response.Data()\<close>. \<open>writeResponseData\<close> is the part of \<open>httpResponse\<close>
  that follows the nil check of \<open>responseData\<close>; the elements of \<open>cookies\<close> and
  \<open>headers\<close> are taken to be non-nil.
\<close>

definition writeResponseData :: "ResponseData \<Rightarrow> ctx \<Rightarrow> ctx" where
  "writeResponseData responseData c =
     (let mime = (if contentType responseData = [] then MIMEJSON
                  else contentType responseData);
          httpStatusCode = (if statusCode responseData = 0 then 200
                            else statusCode responseData);
          c1 = foldl (\<lambda>c v. ctx_SetCookie v c) c (cookies responseData);
          c2 = foldl (\<lambda>c v. ctx_Header v c) c1 (headers responseData)
      in if length (data responseData) > 0
         then ctx_Data httpStatusCode mime (data responseData) c2
         else c2)"

fun httpResponse :: "ctx \<Rightarrow> Response option \<Rightarrow> result" where
  "httpResponse c None = Inl (Failure ''nil pointer dereference'', c)"
| "httpResponse c (Some (commonResp (Some ginFn) responseData)) = ginFn c"
| "httpResponse c (Some response) =
     (case Data response of
        None \<Rightarrow> Inr c
      | Some responseData \<Rightarrow> Inr (writeResponseData responseData c))"

section \<open>Route handlers and global middlewares\<close>

text \<open>
  A \<open>HandlerWrapper\<close> returns \<open>(Response, error)\<close>; a \<open>Middleware\<close> returns
  \<open>(Response, bool)\<close>. Both receive the request, which wraps the engine context. They
  are taken to act on the context through the \<open>Response\<close> they return only: a raw
  response is the way to call the engine directly.
\<close>

type_synonym HandlerWrapper = "ctx \<Rightarrow> Response option \<times> failure option"

type_synonym Middleware = "ctx \<Rightarrow> Response option \<times> bool"

text \<open>
  A \<open>gin.HandlerFunc\<close>, as a function of what \<open>ctx.Next()\<close> does when it is called
  from inside it.
\<close>

type_synonym HandlerFunc = "(ctx \<Rightarrow> result) \<Rightarrow> ctx \<Rightarrow> result"

text \<open>The closure that \<open>RouterWrapper.handler\<close> registers for one \<open>HandlerWrapper\<close>.\<close>

definition handler :: "HandlerWrapper \<Rightarrow> ctx \<Rightarrow> result" where
  "handler h c =
     (if ctx_IsAborted c then Inr c
      else (case h c of
              (response, Some err) \<Rightarrow> Inl (err, c)
            | (response, None) \<Rightarrow>
                (if response \<noteq> None then httpResponse c response
                 else Inr (ctx_Status 200 c))))"

text \<open>
  The closures that \<open>RouterWrapper.handler\<close> hands to the engine for a route, one for
  each \<open>HandlerWrapper\<close>; none of them calls \<open>Next\<close>. Each closure calls the handler of
  its own iteration of the loop (the loop variable is per iteration, as from Go 1.22;
  with one handler, or the same handler repeated, nothing depends on it).
\<close>

definition route_handlers :: "HandlerWrapper list \<Rightarrow> HandlerFunc list" where
  "route_handlers handlerWrapper = map (\<lambda>h Next. handler h) handlerWrapper"

text \<open>
  The closure that \<open>Start\<close> registers for one global middleware; \<open>Next\<close> runs the rest
  of the chain.
\<close>

definition global_middleware :: "Middleware \<Rightarrow> (ctx \<Rightarrow> result) \<Rightarrow> ctx \<Rightarrow> result" where
  "global_middleware middleware Next c =
     (case middleware c of
        (response, continued) \<Rightarrow>
          (if \<not> continued
           then (case httpResponse c response of
                   Inl p \<Rightarrow> Inl p
                 | Inr c' \<Rightarrow> Inr (ctx_Abort c'))
           else Next c))"


section \<open>Structured responses and the status registry\<close>

text \<open>
  Modelled from the spec: the \<open>StatusCode\<close> constants, \<open>RestRespStruct\<close> and the
  \<open>NewRest...\<close> builders are not under src. The spec names the domain statuses and
  describes the envelope as \<open>{status, message, data}\<close>; the builders used here fill in
  the status and leave message and data unset.
\<close>

datatype StatusCode =
    StatusCodeSuccess
  | StatusCodeException
  | StatusCodeBadRequestParameters
  | StatusCodeForbidden
  | StatusCodeNotFound
  | StatusCodeMethodNotAllowed
  | StatusCodeMediaTypeNotAllowed
  | StatusCodeUploadLimitExceeded

record RestRespStruct =
  envelope_status :: StatusCode
  envelope_message :: "string option"
  envelope_data :: "bytes option"

definition NewRestStatusError :: "StatusCode \<Rightarrow> RestRespStruct" where
  "NewRestStatusError sc =
     \<lparr>envelope_status = sc, envelope_message = None, envelope_data = None\<rparr>"

definition NewRestException :: RestRespStruct where
  "NewRestException =
     \<lparr>envelope_status = StatusCodeException, envelope_message = None, envelope_data = None\<rparr>"

text \<open>
  \<open>ResponseDataStructDecoder.Decode\<close> is configurable and returns \<open>([]byte, error)\<close>.
\<close>

type_synonym Decoder = "RestRespStruct \<Rightarrow> failure + bytes"

definition NewRespRest :: ResponseData where
  "NewRespRest = NewResponseData\<lparr>contentType := MIMEJSON\<rparr>"

text \<open>
  \<open>SetDataResponse\<close> on the \<open>responseData\<close> of a \<open>restResp\<close>: it panics when the decoder
  fails.
\<close>

definition SetDataResponse :: "Decoder \<Rightarrow> ResponseData \<Rightarrow> RestRespStruct \<Rightarrow> failure + Response" where
  "SetDataResponse Decode responseData v =
     (case Decode v of
        Inl err \<Rightarrow> Inl err
      | Inr bytes \<Rightarrow> Inr (restResp (Some (responseData\<lparr>data := bytes\<rparr>))))"

definition RespRestException :: "Decoder \<Rightarrow> failure + Response" where
  "RespRestException Decode = SetDataResponse Decode NewRespRest NewRestException"

definition RespRestStatusError :: "Decoder \<Rightarrow> StatusCode \<Rightarrow> failure + Response" where
  "RespRestStatusError Decode sc =
     SetDataResponse Decode NewRespRest (NewRestStatusError sc)"

text \<open>\<open>httpCodeWithStatus\<close>, as \<open>init\<close> fills it.\<close>

definition httpCodeWithStatus :: "int \<rightharpoonup> StatusCode" where
  "httpCodeWithStatus =
     (((((((Map.empty
       (400 \<mapsto> StatusCodeBadRequestParameters))
       (403 \<mapsto> StatusCodeForbidden))
       (404 \<mapsto> StatusCodeNotFound))
       (405 \<mapsto> StatusCodeMethodNotAllowed))
       (415 \<mapsto> StatusCodeMediaTypeNotAllowed))
       (413 \<mapsto> StatusCodeUploadLimitExceeded))
       (401 \<mapsto> StatusCodeForbidden))"

definition defaultHttpStatusCodeHandlerResponse :: "Decoder \<Rightarrow> ctx \<Rightarrow> int \<Rightarrow> failure + Response option" where
  "defaultHttpStatusCodeHandlerResponse Decode c httpStatusCode =
     (case httpCodeWithStatus httpStatusCode of
        None \<Rightarrow> map_sum id Some (RespRestStatusError Decode StatusCodeException)
      | Some v \<Rightarrow> map_sum id Some (RespRestStatusError Decode v))"


definition defaultRecoverHandlerResponse :: "Decoder \<Rightarrow> ctx \<Rightarrow> failure \<Rightarrow> failure + Response option" where
  "defaultRecoverHandlerResponse Decode c err = map_sum id Some (RespRestException Decode)"

section \<open>Raw responses\<close>

definition NewCommonResp :: Response where
  "NewCommonResp = commonResp None (Some NewResponseData)"

definition RespHttpStatusCode :: "int \<Rightarrow> Response" where
  "RespHttpStatusCode code = commonResp (Some (\<lambda>c. Inr (ctx_Status code c))) None"

definition RespAbortWithHttpStatusCode :: "int \<Rightarrow> Response" where
  "RespAbortWithHttpStatusCode code =
     commonResp (Some (\<lambda>c. Inr (ctx_AbortWithStatus code c))) None"

definition RespTextPlain :: "string \<Rightarrow> int list \<Rightarrow> Response" where
  "RespTextPlain d httpStatusCode =
     commonResp
       (Some (\<lambda>c. Inr (ctx_Data (if length httpStatusCode > 0 then httpStatusCode ! 0 else 200)
                           MIMEPlain d c)))
       None"

text \<open>
  \<open>RespRedirect\<close>. \<open>redirectStatus\<close> is the status code its raw function computes,
  paired with whether the branch that logs \<open>Bad redirect status code\<close> is taken. The
  engine's \<open>context.Redirect\<close> is a parameter.
\<close>

definition redirectStatus :: "int list \<Rightarrow> int \<times> bool" where
  "redirectStatus httpStatusCode =
     (if length httpStatusCode > 0
      then (let code = httpStatusCode ! 0 in (code, code < 300 \<and> code > 308))
      else (301, False))"

definition RespRedirect :: "(int \<Rightarrow> string \<Rightarrow> ctx \<Rightarrow> result) \<Rightarrow> string \<Rightarrow> int list \<Rightarrow> Response" where
  "RespRedirect Redirect url httpStatusCode =
     commonResp (Some (\<lambda>c. Redirect (fst (redirectStatus httpStatusCode)) url c)) None"

section \<open>Recovery and status-code middlewares\<close>

text \<open>
  In each middleware \<open>Next\<close> stands for \<open>ctx.Next()\<close>, the rest of the chain. A panic
  carries the context as it was when the panic was raised: what was written before
  stays written.

  \<open>RecoverHandler\<close>: the resolver is the package variable
  \<open>defaultRecoverHandlerResponse\<close>. A panic inside the deferred function is not
  recovered. The value given to \<open>panic\<close> is never nil here. The function returns
  after the recovery without a call of \<open>Abort\<close>; what the engine does after that is
  part of \<open>run_chain\<close> below.
\<close>

definition RecoverHandler ::
  "(ctx \<Rightarrow> failure \<Rightarrow> failure + Response option) \<Rightarrow> (ctx \<Rightarrow> result) \<Rightarrow> ctx \<Rightarrow> result" where
  "RecoverHandler resolver Next c =
     (case Next c of
        Inr c' \<Rightarrow> Inr c'
      | Inl (r, c') \<Rightarrow>
          (case resolver c' r of
             Inl p \<Rightarrow> Inl (p, c')
           | Inr response \<Rightarrow>
               (if response \<noteq> None then httpResponse c' response else Inr c')))"

text \<open>
  \<open>RewriteHttpStatusCodeHandler\<close>. After \<open>ctx.Next()\<close> it calls
  \<open>ctx.Writer.WriteHeader(writer.statusCode)\<close>; \<open>ctx.Writer\<close> is then still the rewriter
  installed here, so \<open>writer.statusCode\<close> is what its \<open>Status\<close> returns.
\<close>

definition RewriteHttpStatusCodeHandler :: "(ctx \<Rightarrow> result) \<Rightarrow> ctx \<Rightarrow> result" where
  "RewriteHttpStatusCodeHandler Next c =
     (case Next (c\<lparr>Writer := StatusRewriter (Writer c) 404\<rparr>) of
        Inl p \<Rightarrow> Inl p
      | Inr c' \<Rightarrow> Inr (c'\<lparr>Writer := WriteHeader (Status (Writer c')) (Writer c')\<rparr>))"

text \<open>
  \<open>HttpStatusCodeHandler\<close>: the response function is the package variable
  \<open>defaultHttpStatusCodeHandlerResponse\<close>.
\<close>

definition HttpStatusCodeHandler ::
  "(ctx \<Rightarrow> int \<Rightarrow> failure + Response option) \<Rightarrow> (ctx \<Rightarrow> result) \<Rightarrow> ctx \<Rightarrow> result" where
  "HttpStatusCodeHandler respond Next c =
     (case Next c of
        Inl p \<Rightarrow> Inl p
      | Inr c' \<Rightarrow>
          (let code = Status (Writer c')
           in if code \<noteq> 200
              then (let c1 = c'\<lparr>Writer := WriteHeader 200 (Writer c')\<rparr>
                    in case respond c1 code of
                         Inl p \<Rightarrow> Inl (p, c1)
                       | Inr response \<Rightarrow> httpResponse c1 response)
              else Inr c'))"

text \<open>
  Modelled from the spec: the bad-status resolver that reads the configured ignore-list
  (\<open>IgnoreHttpCode\<close> of \<open>GinConfig\<close>), registered by \<open>Start\<close> as \<open>responseRewriteHandler\<close>,
  is not under src. Spec 4.5: it runs after the chain and reads the buffered status; if
  that equals \<open>200\<close> or appears in the ignore-list, it passes through unchanged;
  otherwise it forces the status to \<open>200\<close> and writes the error envelope of the domain
  status.
\<close>

definition BadStatusResolver ::
  "int list \<Rightarrow> (ctx \<Rightarrow> int \<Rightarrow> failure + Response option) \<Rightarrow> (ctx \<Rightarrow> result) \<Rightarrow> ctx \<Rightarrow> result" where
  "BadStatusResolver IgnoreHttpCode respond Next c =
     (case Next c of
        Inl p \<Rightarrow> Inl p
      | Inr c' \<Rightarrow>
          (let code = Status (Writer c')
           in if code = 200 \<or> code \<in> set IgnoreHttpCode
              then Inr c'
              else (let c1 = c'\<lparr>Writer := WriteHeader 200 (Writer c')\<rparr>
                    in case respond c1 code of
                         Inl p \<Rightarrow> Inl (p, c1)
                       | Inr response \<Rightarrow> httpResponse c1 response)))"

section \<open>The engine around the chain\<close>

text \<open>
  What the engine does around the handlers, outside the repository.

  The loop of \<open>ctx.Next()\<close>: it starts the handlers of the chain that have not been
  started, one after the other, each with the context as the one before left it. A
  handler may call \<open>Next\<close> itself, which runs the same loop from where the position
  then is. When a handler returns, the loop goes on from where the position then is: at
  the end after a nested \<open>Next\<close> that returned or after \<open>Abort\<close>, and behind the
  handler that panicked after a panic that a handler on the way recovered. A panic that
  no handler recovers leaves the loop.
\<close>

definition lastn :: "nat \<Rightarrow> 'a list \<Rightarrow> 'a list" where
  "lastn n xs = drop (length xs - n) xs"

function run_chain :: "HandlerFunc list \<Rightarrow> ctx \<Rightarrow> result" where
  "run_chain [] c = Inr c"
| "run_chain (h # hs) c =
     (case h (\<lambda>c1. run_chain (lastn (remaining c1) hs) c1) (c\<lparr>remaining := length hs\<rparr>) of
        Inl p \<Rightarrow> Inl p
      | Inr c' \<Rightarrow> run_chain (lastn (remaining c') hs) c')"
  by pat_completeness auto
termination
  by (relation "measure (\<lambda>(hs, c). length hs)") (auto simp: lastn_def)

text \<open>
  On a matched route the engine runs the chain on a fresh context and then commits the
  pending status of its own writer if nothing was written. On an unmatched route
  (\<open>serveError\<close>) it sets the pending status of its own writer to the error code, runs
  the chain of the global handlers, and then, if nothing is written, writes its default
  message through \<open>ctx.Writer\<close> when its own pending status is still the error code, and
  commits the pending status otherwise. A panic that leaves the chain ends the connection
  without a well-formed response: \<open>None\<close>.
\<close>

definition serve :: "HandlerFunc list \<Rightarrow> responseWriter option" where
  "serve chain =
     (case run_chain chain new_ctx of
        Inl p \<Rightarrow> None
      | Inr c \<Rightarrow> Some (gin_WriteHeaderNow (wire (Writer c))))"

definition serveError :: "int \<Rightarrow> bytes \<Rightarrow> HandlerFunc list \<Rightarrow> responseWriter option" where
  "serveError code defaultMessage chain =
     (case run_chain chain (new_ctx\<lparr>Writer := GinWriter (new_writer\<lparr>w_status := code\<rparr>)\<rparr>) of
        Inl p \<Rightarrow> None
      | Inr c \<Rightarrow>
          (let m = wire (Writer c)
           in if gin_Written m then Some m
              else if w_status m = code then Some (wire (Write defaultMessage (Writer c)))
              else Some (gin_WriteHeaderNow m)))"

definition default404Body :: bytes where
  "default404Body = ''404 page not found''"

text \<open>Calls on a writer, in sequence; \<open>Status\<close> only reads.\<close>

datatype writer_call =
    CallWriteHeader int
  | CallWriteHeaderNow
  | CallStatus
  | CallWrite bytes

fun do_call :: "ResponseWriter \<Rightarrow> writer_call \<Rightarrow> ResponseWriter" where
  "do_call w (CallWriteHeader code) = WriteHeader code w"
| "do_call w CallWriteHeaderNow = WriteHeaderNow w"
| "do_call w CallStatus = w"
| "do_call w (CallWrite d) = Write d w"

fun is_body_write :: "writer_call \<Rightarrow> bool" where
  "is_body_write (CallWrite d) = True"
| "is_body_write x = False"

fun buffered_after :: "int \<Rightarrow> writer_call \<Rightarrow> int" where
  "buffered_after s (CallWriteHeader code) = code"
| "buffered_after s x = s"

section \<open>Facts about the writers\<close>


lemma wire_WriteHeader_committed:
  "w_committed (wire (WriteHeader code w)) = w_committed (wire w)"
  by (cases w) (simp_all add: gin_WriteHeader_def)

lemma wire_WriteHeader_body: "w_body (wire (WriteHeader code w)) = w_body (wire w)"
  by (cases w) (simp_all add: gin_WriteHeader_def)

lemma Written_wire: "Written w = gin_Written (wire w)"
  by (induction w) simp_all

lemma wire_WriteHeaderNow_rewriter:
  "w_committed (wire (WriteHeaderNow (StatusRewriter w s))) = w_committed (wire w)
   \<and> w_body (wire (WriteHeaderNow (StatusRewriter w s))) = w_body (wire w)"
  by (simp add: wire_WriteHeader_committed wire_WriteHeader_body)

lemma wire_Write_WriteHeader:
  "\<not> Written w \<Longrightarrow> code > 0 \<Longrightarrow>
   wire (Write d (WriteHeader code w)) =
     \<lparr>w_status = code, w_committed = Some code, w_body = w_body (wire w) @ d\<rparr>"
proof (induction w arbitrary: code)
  case (GinWriter g)
  then show ?case
    by (simp add: gin_WriteHeader_def gin_Write_def gin_WriteHeaderNow_def gin_Written_def Let_def)
next
  case (StatusRewriter w s)
  then show ?case by simp
qed

lemma wire_Write_Written:
  "Written w \<Longrightarrow> wire (Write d w) = (wire w)\<lparr>w_body := w_body (wire w) @ d\<rparr>"
proof (induction w)
  case (GinWriter g)
  then show ?case
    by (simp add: gin_Write_def gin_WriteHeaderNow_def Let_def)
next
  case (StatusRewriter w s)
  then show ?case by simp
qed

lemma do_call_no_write:
  "\<not> is_body_write x \<Longrightarrow>
   \<exists>w'. do_call (StatusRewriter w s) x = StatusRewriter w' (buffered_after s x)
     \<and> w_committed (wire w') = w_committed (wire w)
     \<and> w_body (wire w') = w_body (wire w)"
  by (cases x) (simp_all add: wire_WriteHeader_committed wire_WriteHeader_body)

lemma foldl_do_call_no_write:
  "\<forall>x \<in> set xs. \<not> is_body_write x \<Longrightarrow>
   \<exists>w'. foldl do_call (StatusRewriter w s) xs = StatusRewriter w' (foldl buffered_after s xs)
     \<and> w_committed (wire w') = w_committed (wire w)
     \<and> w_body (wire w') = w_body (wire w)"
proof (induction xs arbitrary: w s)
  case Nil
  then show ?case by simp
next
  case (Cons x xs)
  from Cons.prems have nx: "\<not> is_body_write x" and nxs: "\<forall>y \<in> set xs. \<not> is_body_write y"
    by simp_all
  from do_call_no_write [OF nx, of w s] obtain w1 where
    s1: "do_call (StatusRewriter w s) x = StatusRewriter w1 (buffered_after s x)"
    and c1: "w_committed (wire w1) = w_committed (wire w)"
    and b1: "w_body (wire w1) = w_body (wire w)"
    by blast
  from Cons.IH [OF nxs, of w1 "buffered_after s x"] obtain w' where
    "foldl do_call (StatusRewriter w1 (buffered_after s x)) xs =
       StatusRewriter w' (foldl buffered_after (buffered_after s x) xs)"
    "w_committed (wire w') = w_committed (wire w1)"
    "w_body (wire w') = w_body (wire w1)"
    by blast
  with s1 c1 b1 show ?case by simp
qed

lemma foldl_status_only:
  "\<forall>x \<in> set xs. x = CallStatus \<or> (\<exists>code. x = CallWriteHeader code) \<Longrightarrow>
   foldl do_call (StatusRewriter w s) xs = StatusRewriter w (foldl buffered_after s xs)"
  by (induction xs arbitrary: s) auto


lemma wire_WriteHeaderNow_body: "w_body (wire (WriteHeaderNow w)) = w_body (wire w)"
  by (cases w) (simp_all add: gin_WriteHeaderNow_def wire_WriteHeader_body)

section \<open>Facts about httpResponse\<close>

lemma foldl_SetCookie:
  "foldl (\<lambda>c v. ctx_SetCookie v c) c xs = c\<lparr>calls := calls c @ map LogSetCookie xs\<rparr>"
  by (induction xs arbitrary: c) (simp_all add: ctx_SetCookie_def)

lemma foldl_Header:
  "foldl (\<lambda>c v. ctx_Header v c) c xs = c\<lparr>calls := calls c @ map LogHeader xs\<rparr>"
  by (induction xs arbitrary: c) (simp_all add: ctx_Header_def)

lemma writeResponseData_empty:
  "data rd = [] \<Longrightarrow>
   writeResponseData rd c =
     c\<lparr>calls := calls c @ map LogSetCookie (cookies rd) @ map LogHeader (headers rd)\<rparr>"
  by (simp add: writeResponseData_def foldl_SetCookie foldl_Header Let_def)

lemma writeResponseData_body:
  "data rd \<noteq> [] \<Longrightarrow>
   writeResponseData rd c =
     ctx_Data (if statusCode rd = 0 then 200 else statusCode rd)
       (if contentType rd = [] then MIMEJSON else contentType rd) (data rd)
       (c\<lparr>calls := calls c @ map LogSetCookie (cookies rd) @ map LogHeader (headers rd)\<rparr>)"
  by (simp add: writeResponseData_def foldl_SetCookie foldl_Header Let_def)

lemma calls_writeResponseData:
  "calls (writeResponseData rd c) =
     calls c @ map LogSetCookie (cookies rd) @ map LogHeader (headers rd)
       @ (if data rd = [] then []
          else [LogData (if statusCode rd = 0 then 200 else statusCode rd)
                  (if contentType rd = [] then ''application/json'' else contentType rd)
                  (data rd)])"
  by (cases "data rd = []")
     (simp_all add: writeResponseData_empty writeResponseData_body ctx_Data_def Let_def MIMEJSON_def)

lemma httpResponse_structured:
  "rawCallback response = None \<Longrightarrow>
   httpResponse c (Some response) =
     (case Data response of None \<Rightarrow> Inr c | Some rd \<Rightarrow> Inr (writeResponseData rd c))"
  by (cases response) (auto split: option.splits)

lemma httpResponse_raw:
  "rawCallback response = Some ginFn \<Longrightarrow> httpResponse c (Some response) = ginFn c"
  by (cases response) auto

lemma wire_ctx_Data_fresh:
  "\<not> Written (Writer c) \<Longrightarrow>
   wire (Writer (ctx_Data 200 mime d c)) =
     \<lparr>w_status = 200, w_committed = Some 200, w_body = w_body (wire (Writer c)) @ d\<rparr>"
  by (simp add: ctx_Data_def Let_def bodyAllowedForStatus_def wire_Write_WriteHeader)

lemma envelope_written:
  assumes "\<not> Written (Writer c)" and "b \<noteq> []"
  shows "\<exists>c''. httpResponse c (Some (restResp (Some (NewRespRest\<lparr>data := b\<rparr>)))) = Inr c''
           \<and> wire (Writer c'') =
               \<lparr>w_status = 200, w_committed = Some 200, w_body = w_body (wire (Writer c)) @ b\<rparr>
           \<and> calls c'' = calls c @ [LogData 200 ''application/json'' b]"
proof -
  let ?rd = "NewRespRest\<lparr>data := b\<rparr>"
  have f: "data ?rd = b" "statusCode ?rd = 0" "contentType ?rd = MIMEJSON"
    "headers ?rd = []" "cookies ?rd = []"
    by (simp_all add: NewRespRest_def NewResponseData_def)
  have w: "writeResponseData ?rd c = ctx_Data 200 MIMEJSON b c"
    using assms(2) f by (simp add: writeResponseData_body MIMEJSON_def)
  have "wire (Writer (ctx_Data 200 MIMEJSON b c)) =
          \<lparr>w_status = 200, w_committed = Some 200, w_body = w_body (wire (Writer c)) @ b\<rparr>"
    using assms(1) by (rule wire_ctx_Data_fresh)
  moreover have "calls (ctx_Data 200 MIMEJSON b c) = calls c @ [LogData 200 ''application/json'' b]"
    by (simp add: ctx_Data_def Let_def MIMEJSON_def)
  ultimately show ?thesis using w by simp
qed


lemma default_recover_response:
  "Decode NewRestException = Inr b \<Longrightarrow>
   defaultRecoverHandlerResponse Decode c err =
     Inr (Some (restResp (Some (NewRespRest\<lparr>data := b\<rparr>))))"
  by (simp add: defaultRecoverHandlerResponse_def RespRestException_def SetDataResponse_def)

lemma remaining_writeResponseData: "remaining (writeResponseData rd c) = remaining c"
  by (cases "data rd = []")
     (simp_all add: writeResponseData_empty writeResponseData_body ctx_Data_def Let_def)

section \<open>Facts about the middleware chain\<close>

lemma lastn_length: "lastn (length xs) xs = xs"
  by (simp add: lastn_def)

lemma lastn_0: "lastn 0 xs = []"
  by (simp add: lastn_def)

lemma lastn_Nil: "lastn n [] = []"
  by (simp add: lastn_def)

lemma short_circuit_stops_chain:
  "middleware (c\<lparr>remaining := length rest\<rparr>) = (Some response, False) \<Longrightarrow>
   run_chain (global_middleware middleware # rest) c =
     (case httpResponse (c\<lparr>remaining := length rest\<rparr>) (Some response) of
        Inl p \<Rightarrow> Inl p
      | Inr c' \<Rightarrow> Inr (ctx_Abort c'))"
  by (simp add: global_middleware_def ctx_Abort_def lastn_0 split: sum.splits)


lemma HttpStatusCodeHandler_BadStatusResolver:
  "HttpStatusCodeHandler respond Next c = BadStatusResolver [] respond Next c"
  by (simp add: HttpStatusCodeHandler_def BadStatusResolver_def Let_def split: sum.splits)

section \<open>The status registry\<close>

text \<open>
  C6. The status registry maps exactly 400 to BadRequestParameters, 401 and 403 to
  Forbidden, 404 to NotFound, 405 to MethodNotAllowed, 415 to MediaTypeNotAllowed and
  413 to UploadLimitExceeded; the default bad-status response carries the registered
  domain status of the transport code, and StatusCodeException for every other code.
\<close>

theorem status_registry:
  "dom httpCodeWithStatus = {400, 401, 403, 404, 405, 413, 415}
   \<and> httpCodeWithStatus 400 = Some StatusCodeBadRequestParameters
   \<and> httpCodeWithStatus 401 = Some StatusCodeForbidden
   \<and> httpCodeWithStatus 403 = Some StatusCodeForbidden
   \<and> httpCodeWithStatus 404 = Some StatusCodeNotFound
   \<and> httpCodeWithStatus 405 = Some StatusCodeMethodNotAllowed
   \<and> httpCodeWithStatus 415 = Some StatusCodeMediaTypeNotAllowed
   \<and> httpCodeWithStatus 413 = Some StatusCodeUploadLimitExceeded
   \<and> defaultHttpStatusCodeHandlerResponse Decode c code =
       map_sum id Some (RespRestStatusError Decode
         (if code = 400 then StatusCodeBadRequestParameters
          else if code = 401 then StatusCodeForbidden
          else if code = 403 then StatusCodeForbidden
          else if code = 404 then StatusCodeNotFound
          else if code = 405 then StatusCodeMethodNotAllowed
          else if code = 415 then StatusCodeMediaTypeNotAllowed
          else if code = 413 then StatusCodeUploadLimitExceeded
          else StatusCodeException))"
proof -
  have d: "dom httpCodeWithStatus = {400, 401, 403, 404, 405, 413, 415}"
    unfolding httpCodeWithStatus_def by auto
  have r: "defaultHttpStatusCodeHandlerResponse Decode c code =
       map_sum id Some (RespRestStatusError Decode
         (if code = 400 then StatusCodeBadRequestParameters
          else if code = 401 then StatusCodeForbidden
          else if code = 403 then StatusCodeForbidden
          else if code = 404 then StatusCodeNotFound
          else if code = 405 then StatusCodeMethodNotAllowed
          else if code = 415 then StatusCodeMediaTypeNotAllowed
          else if code = 413 then StatusCodeUploadLimitExceeded
          else StatusCodeException))"
    by (simp add: defaultHttpStatusCodeHandlerResponse_def httpCodeWithStatus_def)
  show ?thesis using d r by (simp add: httpCodeWithStatus_def)
qed

section \<open>Redirects\<close>

text \<open>
  C10. A redirect built by RespRedirect with no status code uses 301; whatever status
  code is supplied, the branch that logs the bad-redirect-status warning is not taken,
  and the supplied code is handed to the engine's redirect unchanged.
\<close>

theorem redirect_status:
  "redirectStatus [] = (301, False)
   \<and> redirectStatus (code # rest) = (code, False)
   \<and> snd (redirectStatus httpStatusCode) = False
   \<and> httpResponse c (Some (RespRedirect Redirect url httpStatusCode)) =
       Redirect (if httpStatusCode = [] then 301 else httpStatusCode ! 0) url c"
  by (cases httpStatusCode) (simp_all add: redirectStatus_def RespRedirect_def Let_def)

section \<open>The deferred-status writer\<close>

text \<open>
  C3. The rewriter that RewriteHttpStatusCodeHandler installs starts with the buffered
  status 404. Whatever sequence of WriteHeader, WriteHeaderNow and Status calls reaches
  it before the first body write, the engine's writer has committed no header and sent
  no body, and Status returns the last status written (404 if none); status writes and
  reads alone leave the wrapped writer as it was. This holds through the completion of
  the chain under RewriteHttpStatusCodeHandler.
\<close>

theorem deferred_status_writer:
  assumes "\<forall>x \<in> set xs. \<not> is_body_write x"
  shows "(\<exists>w'. foldl do_call (StatusRewriter w s) xs = StatusRewriter w' (foldl buffered_after s xs)
            \<and> w_committed (wire w') = w_committed (wire w)
            \<and> w_body (wire w') = w_body (wire w))
         \<and> ((\<forall>x \<in> set xs. x \<noteq> CallWriteHeaderNow) \<longrightarrow>
              foldl do_call (StatusRewriter w s) xs = StatusRewriter w (foldl buffered_after s xs))
         \<and> (\<exists>c'. RewriteHttpStatusCodeHandler
                    (\<lambda>c0. Inr (c0\<lparr>Writer := foldl do_call (Writer c0) xs\<rparr>)) c = Inr c'
              \<and> Status (Writer c') = foldl buffered_after 404 xs
              \<and> w_committed (wire (Writer c')) = w_committed (wire (Writer c))
              \<and> w_body (wire (Writer c')) = w_body (wire (Writer c)))"
proof -
  have a: "\<exists>w'. foldl do_call (StatusRewriter w s) xs = StatusRewriter w' (foldl buffered_after s xs)
            \<and> w_committed (wire w') = w_committed (wire w)
            \<and> w_body (wire w') = w_body (wire w)" for w s
    using assms by (rule foldl_do_call_no_write)
  have b: "(\<forall>x \<in> set xs. x \<noteq> CallWriteHeaderNow) \<longrightarrow>
              foldl do_call (StatusRewriter w s) xs = StatusRewriter w (foldl buffered_after s xs)"
  proof
    assume n: "\<forall>x \<in> set xs. x \<noteq> CallWriteHeaderNow"
    have "\<forall>x \<in> set xs. x = CallStatus \<or> (\<exists>code. x = CallWriteHeader code)"
    proof
      fix x assume x: "x \<in> set xs"
      with assms n have "\<not> is_body_write x" "x \<noteq> CallWriteHeaderNow" by simp_all
      then show "x = CallStatus \<or> (\<exists>code. x = CallWriteHeader code)"
        by (cases x) simp_all
    qed
    then show "foldl do_call (StatusRewriter w s) xs = StatusRewriter w (foldl buffered_after s xs)"
      by (rule foldl_status_only)
  qed
  from a [of "Writer c" 404] obtain w' where
    f: "foldl do_call (StatusRewriter (Writer c) 404) xs = StatusRewriter w' (foldl buffered_after 404 xs)"
    and fc: "w_committed (wire w') = w_committed (wire (Writer c))"
    and fb: "w_body (wire w') = w_body (wire (Writer c))"
    by blast
  have c: "\<exists>c'. RewriteHttpStatusCodeHandler
                    (\<lambda>c0. Inr (c0\<lparr>Writer := foldl do_call (Writer c0) xs\<rparr>)) c = Inr c'
              \<and> Status (Writer c') = foldl buffered_after 404 xs
              \<and> w_committed (wire (Writer c')) = w_committed (wire (Writer c))
              \<and> w_body (wire (Writer c')) = w_body (wire (Writer c))"
    using f fc fb by (simp add: RewriteHttpStatusCodeHandler_def)
  from a [of w s] b c show ?thesis by blast
qed

text \<open>The theorem at a status write, a read, a flush and another status write.\<close>

theorem deferred_status_writer_witness:
  "(\<exists>w'. foldl do_call (StatusRewriter (GinWriter new_writer) 404)
             [CallWriteHeader 500, CallStatus, CallWriteHeaderNow, CallWriteHeader 201] =
           StatusRewriter w' 201
         \<and> w_committed (wire w') = None \<and> w_body (wire w') = [])"
  using deferred_status_writer
    [of "[CallWriteHeader 500, CallStatus, CallWriteHeaderNow, CallWriteHeader 201]"
        "GinWriter new_writer" 404 new_ctx]
  by (simp add: new_writer_def)

section \<open>Writing a response\<close>

text \<open>
  C4. When the response is a commonResp with a raw function, httpResponse runs that
  function on the engine context and nothing else. Otherwise, with no ResponseData
  nothing is written, and with a ResponseData the cookies are applied first, then the
  headers, then the body through Data with the status code (200 when unset) and the
  content type (application/json when unset); the body call is made only when the body
  is not empty.
\<close>

theorem httpResponse_precedence:
  "(rawCallback response = Some ginFn \<longrightarrow> httpResponse c (Some response) = ginFn c)
   \<and> (rawCallback response = None \<longrightarrow> Data response = None \<longrightarrow>
        httpResponse c (Some response) = Inr c)
   \<and> (rawCallback response = None \<longrightarrow> Data response = Some rd \<longrightarrow>
        httpResponse c (Some response) =
          Inr ((if data rd = [] then id
                else ctx_Data (if statusCode rd = 0 then 200 else statusCode rd)
                       (if contentType rd = [] then ''application/json'' else contentType rd)
                       (data rd))
               (foldl (\<lambda>c v. ctx_Header v c)
                  (foldl (\<lambda>c v. ctx_SetCookie v c) c (cookies rd)) (headers rd)))
        \<and> (\<exists>c'. httpResponse c (Some response) = Inr c'
              \<and> calls c' =
                  calls c @ map LogSetCookie (cookies rd) @ map LogHeader (headers rd)
                    @ (if data rd = [] then []
                       else [LogData (if statusCode rd = 0 then 200 else statusCode rd)
                               (if contentType rd = [] then ''application/json''
                                else contentType rd)
                               (data rd)])))"
proof -
  have a: "rawCallback response = Some ginFn \<longrightarrow> httpResponse c (Some response) = ginFn c"
    by (simp add: httpResponse_raw)
  have b: "rawCallback response = None \<longrightarrow> Data response = None \<longrightarrow>
        httpResponse c (Some response) = Inr c"
    by (simp add: httpResponse_structured)
  have c1: "rawCallback response = None \<longrightarrow> Data response = Some rd \<longrightarrow>
        httpResponse c (Some response) =
          Inr ((if data rd = [] then id
                else ctx_Data (if statusCode rd = 0 then 200 else statusCode rd)
                       (if contentType rd = [] then ''application/json'' else contentType rd)
                       (data rd))
               (foldl (\<lambda>c v. ctx_Header v c)
                  (foldl (\<lambda>c v. ctx_SetCookie v c) c (cookies rd)) (headers rd)))"
    by (simp add: httpResponse_structured writeResponseData_def Let_def MIMEJSON_def)
  have c2: "rawCallback response = None \<longrightarrow> Data response = Some rd \<longrightarrow>
        (\<exists>c'. httpResponse c (Some response) = Inr c'
              \<and> calls c' =
                  calls c @ map LogSetCookie (cookies rd) @ map LogHeader (headers rd)
                    @ (if data rd = [] then []
                       else [LogData (if statusCode rd = 0 then 200 else statusCode rd)
                               (if contentType rd = [] then ''application/json''
                                else contentType rd)
                               (data rd)]))"
    by (simp add: httpResponse_structured calls_writeResponseData)
  from a b c1 c2 show ?thesis by blast
qed

text \<open>The theorem at a raw status response and at a structured response with one cookie, one header and a body.\<close>

theorem httpResponse_precedence_witness:
  "httpResponse new_ctx (Some (RespHttpStatusCode 204)) = Inr (ctx_Status 204 new_ctx)
   \<and> (\<exists>c'. httpResponse new_ctx
              (Some (restResp (Some \<lparr>data = ''hi'', contentType = [], statusCode = 0,
                 headers = [NewHeader ''X-A'' ''1''],
                 cookies = [NewCookie ''k'' ''v'' 0 ''/'' [] False True]\<rparr>))) = Inr c'
         \<and> calls c' = [LogSetCookie (NewCookie ''k'' ''v'' 0 ''/'' [] False True),
                        LogHeader (NewHeader ''X-A'' ''1''),
                        LogData 200 ''application/json'' ''hi''])"
  using httpResponse_precedence
    [of "RespHttpStatusCode 204" "\<lambda>c. Inr (ctx_Status 204 c)" new_ctx undefined]
    httpResponse_precedence
    [of "restResp (Some \<lparr>data = ''hi'', contentType = [], statusCode = 0,
                 headers = [NewHeader ''X-A'' ''1''],
                 cookies = [NewCookie ''k'' ''v'' 0 ''/'' [] False True]\<rparr>)" undefined new_ctx
        "\<lparr>data = ''hi'', contentType = [], statusCode = 0,
                 headers = [NewHeader ''X-A'' ''1''],
                 cookies = [NewCookie ''k'' ''v'' 0 ''/'' [] False True]\<rparr>"]
  by (simp add: RespHttpStatusCode_def new_ctx_def ctx_Data_def ctx_Header_def
        ctx_SetCookie_def Let_def)

text \<open>
  C7. The claim is that a ResponseData with an empty body is written without a body
  write while its headers, cookies and status code are still applied. httpResponse
  computes the status code and then uses it only in the body call: at a ResponseData
  with status code 500, one header and no body it applies the header and makes no call
  that carries the status. The client of a route with such a handler receives status
  200, and under the rewrite and status-code middlewares the NotFound envelope.
\<close>

theorem empty_body_status_dropped:
  "httpResponse new_ctx
     (Some (restResp (Some (NewResponseData\<lparr>statusCode := 500,
                                            headers := [NewHeader ''X-A'' ''1'']\<rparr>)))) =
     Inr (new_ctx\<lparr>calls := [LogHeader (NewHeader ''X-A'' ''1'')]\<rparr>)
   \<and> serve (route_handlers
        [\<lambda>c. (Some (restResp (Some (NewResponseData\<lparr>statusCode := 500,
                                            headers := [NewHeader ''X-A'' ''1'']\<rparr>))), None)]) =
     Some \<lparr>w_status = 200, w_committed = Some 200, w_body = []\<rparr>
   \<and> serve ([RewriteHttpStatusCodeHandler,
             HttpStatusCodeHandler (defaultHttpStatusCodeHandlerResponse
               (\<lambda>v. Inr (if envelope_status v = StatusCodeNotFound then ''NotFound''
                          else ''other'')))]
            @ route_handlers
                [\<lambda>c. (Some (restResp (Some (NewResponseData\<lparr>statusCode := 500,
                                            headers := [NewHeader ''X-A'' ''1'']\<rparr>))), None)]) =
     Some \<lparr>w_status = 200, w_committed = Some 200, w_body = ''NotFound''\<rparr>"
  by (simp add: serve_def route_handlers_def lastn_def RewriteHttpStatusCodeHandler_def
        HttpStatusCodeHandler_def handler_def ctx_IsAborted_def new_ctx_def new_writer_def
        Let_def defaultHttpStatusCodeHandlerResponse_def httpCodeWithStatus_def
        RespRestStatusError_def NewRestStatusError_def
        SetDataResponse_def writeResponseData_def NewRespRest_def NewResponseData_def
        MIMEJSON_def ctx_Data_def ctx_Header_def bodyAllowedForStatus_def gin_Written_def
        gin_WriteHeader_def gin_Write_def gin_WriteHeaderNow_def)

section \<open>Middleware short-circuit\<close>



section \<open>A handler that returns nothing\<close>

text \<open>
  C8. A handler that returns a nil Response and a nil error makes the single call
  Status(200) on the context: no body and no content type is written. On a route with
  this handler the client receives status 200 with an empty body, with or without the
  recovery, rewrite and status-code middlewares before it in the chain.
\<close>

theorem nil_response_bare_200:
  assumes "\<forall>c. h c = (None, None)"
  shows "(\<not> ctx_IsAborted c \<longrightarrow>
            handler h c = Inr (ctx_Status 200 c)
            \<and> calls (ctx_Status 200 c) = calls c @ [LogStatus 200])
         \<and> (\<exists>c'. run_chain (route_handlers [h]) new_ctx = Inr c' \<and> calls c' = [LogStatus 200])
         \<and> serve (route_handlers [h]) =
             Some \<lparr>w_status = 200, w_committed = Some 200, w_body = []\<rparr>
         \<and> serve ([RecoverHandler resolver, RewriteHttpStatusCodeHandler,
                    HttpStatusCodeHandler respond] @ route_handlers [h]) =
             Some \<lparr>w_status = 200, w_committed = Some 200, w_body = []\<rparr>"
proof -
  have a: "\<not> ctx_IsAborted c \<longrightarrow>
            handler h c = Inr (ctx_Status 200 c)
            \<and> calls (ctx_Status 200 c) = calls c @ [LogStatus 200]" for c
    using assms by (simp add: handler_def ctx_Status_def)
  have r: "\<not> aborted c \<Longrightarrow> handler h c = Inr (ctx_Status 200 c)" for c
    using a [of c] by (simp add: ctx_IsAborted_def)
  have b: "\<exists>c'. run_chain (route_handlers [h]) new_ctx = Inr c' \<and> calls c' = [LogStatus 200]"
    by (simp add: route_handlers_def r lastn_Nil new_ctx_def ctx_Status_def)
  have s1: "serve (route_handlers [h]) =
             Some \<lparr>w_status = 200, w_committed = Some 200, w_body = []\<rparr>"
    by (simp add: serve_def route_handlers_def r lastn_Nil ctx_Status_def new_ctx_def
          new_writer_def gin_WriteHeader_def gin_WriteHeaderNow_def gin_Written_def)
  have s2: "serve ([RecoverHandler resolver, RewriteHttpStatusCodeHandler,
                    HttpStatusCodeHandler respond] @ route_handlers [h]) =
             Some \<lparr>w_status = 200, w_committed = Some 200, w_body = []\<rparr>"
    by (simp add: serve_def route_handlers_def r lastn_def RecoverHandler_def
          RewriteHttpStatusCodeHandler_def HttpStatusCodeHandler_def ctx_Status_def
          new_ctx_def new_writer_def gin_WriteHeaderNow_def gin_Written_def Let_def)
  from a [of c] b s1 s2 show ?thesis by blast
qed

text \<open>The theorem at the handler that ignores its request.\<close>

theorem nil_response_bare_200_witness:
  "serve (route_handlers [\<lambda>c. (None, None)]) =
     Some \<lparr>w_status = 200, w_committed = Some 200, w_body = []\<rparr>
   \<and> handler (\<lambda>c. (None, None)) new_ctx = Inr (ctx_Status 200 new_ctx)"
  using nil_response_bare_200 [of "\<lambda>c. (None, None)" new_ctx]
  by (simp add: ctx_IsAborted_def new_ctx_def)

section \<open>The bad-status resolver\<close>

text \<open>
  C9. When the buffered status after the chain is 200 or is in the configured
  ignore-list, the bad-status resolver returns the context of the chain unchanged: no
  status is forced and no envelope is written. HttpStatusCodeHandler is the resolver
  with an empty ignore-list. With 404 in the ignore-list, a request on an unmatched
  route is answered with the engine's own 404 and its default body.
\<close>

theorem bad_status_passthrough:
  assumes "Next c = Inr c'"
    and "Status (Writer c') = 200 \<or> Status (Writer c') \<in> set IgnoreHttpCode"
  shows "BadStatusResolver IgnoreHttpCode respond Next c = Inr c'
         \<and> (Status (Writer c') = 200 \<longrightarrow> HttpStatusCodeHandler respond Next c = Inr c')
         \<and> HttpStatusCodeHandler respond Next c = BadStatusResolver [] respond Next c
         \<and> (404 \<in> set IgnoreHttpCode \<longrightarrow>
              serveError 404 default404Body
                [RewriteHttpStatusCodeHandler, BadStatusResolver IgnoreHttpCode respond] =
              Some \<lparr>w_status = 404, w_committed = Some 404, w_body = default404Body\<rparr>)"
proof -
  have a: "BadStatusResolver IgnoreHttpCode respond Next c = Inr c'"
    using assms by (auto simp: BadStatusResolver_def Let_def)
  have b: "Status (Writer c') = 200 \<longrightarrow> HttpStatusCodeHandler respond Next c = Inr c'"
    using assms(1) by (simp add: HttpStatusCodeHandler_def Let_def)
  have d: "404 \<in> set IgnoreHttpCode \<longrightarrow>
              serveError 404 default404Body
                [RewriteHttpStatusCodeHandler, BadStatusResolver IgnoreHttpCode respond] =
              Some \<lparr>w_status = 404, w_committed = Some 404, w_body = default404Body\<rparr>"
    by (simp add: serveError_def RewriteHttpStatusCodeHandler_def BadStatusResolver_def
          lastn_def new_ctx_def new_writer_def Let_def gin_Written_def gin_WriteHeader_def
          gin_Write_def gin_WriteHeaderNow_def)
  from a b d HttpStatusCodeHandler_BadStatusResolver show ?thesis by blast
qed

text \<open>
  The theorem at a handler that sets status 500 with 500 in the ignore-list, and at an
  unmatched route with 404 in the ignore-list.
\<close>

theorem bad_status_passthrough_witness:
  "BadStatusResolver [404, 500] (defaultHttpStatusCodeHandlerResponse (\<lambda>v. Inr ''{}''))
     (run_chain (route_handlers [\<lambda>c. (Some (RespHttpStatusCode 500), None)]))
     (new_ctx\<lparr>Writer := StatusRewriter (GinWriter new_writer) 404\<rparr>) =
   Inr \<lparr>Writer = StatusRewriter (GinWriter new_writer) 500, aborted = False,
        calls = [LogStatus 500], remaining = 0\<rparr>
   \<and> serveError 404 default404Body
        [RewriteHttpStatusCodeHandler,
         BadStatusResolver [404, 500] (defaultHttpStatusCodeHandlerResponse (\<lambda>v. Inr ''{}''))] =
      Some \<lparr>w_status = 404, w_committed = Some 404, w_body = ''404 page not found''\<rparr>"
  using bad_status_passthrough
    [of "run_chain (route_handlers [\<lambda>c. (Some (RespHttpStatusCode 500), None)])"
        "new_ctx\<lparr>Writer := StatusRewriter (GinWriter new_writer) 404\<rparr>"
        "\<lparr>Writer = StatusRewriter (GinWriter new_writer) 500, aborted = False,
          calls = [LogStatus 500], remaining = 0\<rparr>"
        "[404, 500]" "defaultHttpStatusCodeHandlerResponse (\<lambda>v. Inr ''{}'')"]
  by (simp add: new_ctx_def route_handlers_def lastn_def handler_def ctx_IsAborted_def
        RespHttpStatusCode_def ctx_Status_def default404Body_def)




section \<open>Panic recovery\<close>

text \<open>
  C1, as amended. When the handlers behind RecoverHandler panic, also through a handler
  that returns a non-nil error, the resolver is called with the context and the panic
  value; a non-nil Response it returns is written by httpResponse, and for nil nothing
  is written; the engine then goes on with the handlers of the chain that have not been
  started. With the default resolver, when no header has been committed before the panic
  and the handler that panicked is the last of the chain, the client receives the
  Exception envelope with transport code 200. The decoder is taken to succeed with a
  non-empty encoding.
\<close>

theorem panic_recovery:
  assumes "run_chain rest (c\<lparr>remaining := length rest\<rparr>) = Inl (r, c')"
  shows "RecoverHandler resolver (\<lambda>c1. run_chain (lastn (remaining c1) rest) c1)
             (c\<lparr>remaining := length rest\<rparr>) =
           (case resolver c' r of
              Inl p \<Rightarrow> Inl (p, c')
            | Inr None \<Rightarrow> Inr c'
            | Inr (Some response) \<Rightarrow> httpResponse c' (Some response))
         \<and> run_chain (RecoverHandler resolver # rest) c =
           (case resolver c' r of
              Inl p \<Rightarrow> Inl (p, c')
            | Inr None \<Rightarrow> run_chain (lastn (remaining c') rest) c'
            | Inr (Some response) \<Rightarrow>
                (case httpResponse c' (Some response) of
                   Inl p \<Rightarrow> Inl p
                 | Inr c'' \<Rightarrow> run_chain (lastn (remaining c'') rest) c''))
         \<and> (\<not> ctx_IsAborted c0 \<longrightarrow> h c0 = (response0, Some err) \<longrightarrow>
              handler h c0 = Inl (err, c0))
         \<and> (remaining c' = 0 \<longrightarrow> \<not> Written (Writer c') \<longrightarrow>
              Decode NewRestException = Inr b \<longrightarrow> b \<noteq> [] \<longrightarrow>
              (\<exists>c''. run_chain (RecoverHandler (defaultRecoverHandlerResponse Decode) # rest) c
                       = Inr c''
                 \<and> gin_WriteHeaderNow (wire (Writer c'')) =
                     \<lparr>w_status = 200, w_committed = Some 200,
                      w_body = w_body (wire (Writer c')) @ b\<rparr>
                 \<and> calls c'' = calls c' @ [LogData 200 ''application/json'' b])
              \<and> (c = new_ctx \<longrightarrow>
                   serve (RecoverHandler (defaultRecoverHandlerResponse Decode) # rest) =
                     Some \<lparr>w_status = 200, w_committed = Some 200,
                           w_body = w_body (wire (Writer c')) @ b\<rparr>))"
proof -
  have n: "(\<lambda>c1. run_chain (lastn (remaining c1) rest) c1) (c\<lparr>remaining := length rest\<rparr>) =
             Inl (r, c')"
    using assms by (simp add: lastn_length)
  have a: "RecoverHandler resolver (\<lambda>c1. run_chain (lastn (remaining c1) rest) c1)
             (c\<lparr>remaining := length rest\<rparr>) =
           (case resolver c' r of
              Inl p \<Rightarrow> Inl (p, c')
            | Inr None \<Rightarrow> Inr c'
            | Inr (Some response) \<Rightarrow> httpResponse c' (Some response))" for resolver
    using n by (simp add: RecoverHandler_def split: sum.splits option.splits)
  have e: "run_chain (RecoverHandler resolver # rest) c =
           (case resolver c' r of
              Inl p \<Rightarrow> Inl (p, c')
            | Inr None \<Rightarrow> run_chain (lastn (remaining c') rest) c'
            | Inr (Some response) \<Rightarrow>
                (case httpResponse c' (Some response) of
                   Inl p \<Rightarrow> Inl p
                 | Inr c'' \<Rightarrow> run_chain (lastn (remaining c'') rest) c''))" for resolver
    using a [of resolver] by (simp split: sum.splits option.splits)
  have b: "\<not> ctx_IsAborted c0 \<longrightarrow> h c0 = (response0, Some err) \<longrightarrow>
              handler h c0 = Inl (err, c0)"
    by (simp add: handler_def)
  have d: "remaining c' = 0 \<longrightarrow> \<not> Written (Writer c') \<longrightarrow>
              Decode NewRestException = Inr b \<longrightarrow> b \<noteq> [] \<longrightarrow>
              (\<exists>c''. run_chain (RecoverHandler (defaultRecoverHandlerResponse Decode) # rest) c
                       = Inr c''
                 \<and> gin_WriteHeaderNow (wire (Writer c'')) =
                     \<lparr>w_status = 200, w_committed = Some 200,
                      w_body = w_body (wire (Writer c')) @ b\<rparr>
                 \<and> calls c'' = calls c' @ [LogData 200 ''application/json'' b])
              \<and> (c = new_ctx \<longrightarrow>
                   serve (RecoverHandler (defaultRecoverHandlerResponse Decode) # rest) =
                     Some \<lparr>w_status = 200, w_committed = Some 200,
                           w_body = w_body (wire (Writer c')) @ b\<rparr>)"
  proof (intro impI)
    assume z: "remaining c' = 0" and nw: "\<not> Written (Writer c')"
      and dec: "Decode NewRestException = Inr b" and ne: "b \<noteq> []"
    let ?rd = "NewRespRest\<lparr>data := b\<rparr>"
    let ?c2 = "writeResponseData ?rd c'"
    have h: "httpResponse c' (Some (restResp (Some ?rd))) = Inr ?c2"
      by simp
    from envelope_written [OF nw ne] h
    have w: "wire (Writer ?c2) =
               \<lparr>w_status = 200, w_committed = Some 200, w_body = w_body (wire (Writer c')) @ b\<rparr>"
      and l: "calls ?c2 = calls c' @ [LogData 200 ''application/json'' b]"
      by simp_all
    have rem: "remaining ?c2 = 0"
      using z by (simp add: remaining_writeResponseData)
    have run: "run_chain (RecoverHandler (defaultRecoverHandlerResponse Decode) # rest) c = Inr ?c2"
      using e [of "defaultRecoverHandlerResponse Decode"] dec h rem
      by (simp add: default_recover_response lastn_0)
    have fin: "gin_WriteHeaderNow (wire (Writer ?c2)) =
                 \<lparr>w_status = 200, w_committed = Some 200, w_body = w_body (wire (Writer c')) @ b\<rparr>"
      using w by (simp add: gin_WriteHeaderNow_def gin_Written_def)
    have sv: "c = new_ctx \<longrightarrow>
                   serve (RecoverHandler (defaultRecoverHandlerResponse Decode) # rest) =
                     Some \<lparr>w_status = 200, w_committed = Some 200,
                           w_body = w_body (wire (Writer c')) @ b\<rparr>"
      using run fin by (auto simp: serve_def simp del: run_chain.simps)
    from run fin l sv
    show "(\<exists>c''. run_chain (RecoverHandler (defaultRecoverHandlerResponse Decode) # rest) c
                       = Inr c''
                 \<and> gin_WriteHeaderNow (wire (Writer c'')) =
                     \<lparr>w_status = 200, w_committed = Some 200,
                      w_body = w_body (wire (Writer c')) @ b\<rparr>
                 \<and> calls c'' = calls c' @ [LogData 200 ''application/json'' b])
              \<and> (c = new_ctx \<longrightarrow>
                   serve (RecoverHandler (defaultRecoverHandlerResponse Decode) # rest) =
                     Some \<lparr>w_status = 200, w_committed = Some 200,
                           w_body = w_body (wire (Writer c')) @ b\<rparr>)"
      by blast
  qed
  from a [of resolver] e [of resolver] b d show ?thesis by blast
qed

text \<open>
  The theorem at a route with one handler, which returns an error, with the default
  resolver and with a resolver that returns nil.
\<close>

theorem panic_recovery_witness:
  "serve (RecoverHandler (defaultRecoverHandlerResponse (\<lambda>v. Inr ''{}''))
          # route_handlers [\<lambda>c. (None, Some (Failure ''err''))]) =
     Some \<lparr>w_status = 200, w_committed = Some 200, w_body = ''{}''\<rparr>
   \<and> run_chain (RecoverHandler (\<lambda>c r. Inr None)
                 # route_handlers [\<lambda>c. (None, Some (Failure ''err''))]) new_ctx = Inr new_ctx"
  using panic_recovery
    [of "route_handlers [\<lambda>c. (None, Some (Failure ''err''))]" new_ctx "Failure ''err''" new_ctx
        "\<lambda>c r. Inr None" new_ctx "\<lambda>c. (None, Some (Failure ''err''))" None "Failure ''err''"
        "\<lambda>v. Inr ''{}''" "''{}''"]
    panic_recovery
    [of "route_handlers [\<lambda>c. (None, Some (Failure ''err''))]" new_ctx "Failure ''err''" new_ctx
        "defaultRecoverHandlerResponse (\<lambda>v. Inr ''{}'')" new_ctx
        "\<lambda>c. (None, Some (Failure ''err''))" None "Failure ''err''"
        "\<lambda>v. Inr ''{}''" "''{}''"]
  by (auto simp: route_handlers_def lastn_def new_ctx_def handler_def ctx_IsAborted_def
        gin_Written_def new_writer_def)

text \<open>
  C1, as stated, fails: on a route that registers a handler twice, where the handler
  answers with status 500 and a body as long as nothing is written and returns an error
  afterwards, the default resolver's envelope is appended to the body and the transport
  status stays 500: the header was committed at the body write. Both closures of the
  route call the same handler.
\<close>

theorem panic_recovery_counterexample:
  "serve (RecoverHandler (defaultRecoverHandlerResponse (\<lambda>v. Inr ''{}''))
          # route_handlers
              [\<lambda>c. if Written (Writer c) then (None, Some (Failure ''err''))
                    else (Some (RespTextPlain ''boom'' [500]), None),
               \<lambda>c. if Written (Writer c) then (None, Some (Failure ''err''))
                    else (Some (RespTextPlain ''boom'' [500]), None)]) =
   Some \<lparr>w_status = 500, w_committed = Some 500, w_body = ''boom{}''\<rparr>"
  by (simp add: serve_def route_handlers_def lastn_def RecoverHandler_def handler_def
        ctx_IsAborted_def RespTextPlain_def
        new_ctx_def new_writer_def Let_def defaultRecoverHandlerResponse_def
        RespRestException_def SetDataResponse_def writeResponseData_def NewRespRest_def
        NewResponseData_def MIMEJSON_def MIMEPlain_def ctx_Data_def bodyAllowedForStatus_def
        gin_Written_def gin_WriteHeader_def gin_Write_def gin_WriteHeaderNow_def)

text \<open>
  RecoverHandler does not abort the chain. After a recovered panic the engine starts the
  handlers behind the one that panicked: their output follows the envelope, and a panic
  of theirs is no longer recovered.
\<close>

lemma recovery_without_abort:
  "serve (RecoverHandler (defaultRecoverHandlerResponse (\<lambda>v. Inr ''{}''))
          # route_handlers
              [\<lambda>c. if Written (Writer c) then (Some (RespTextPlain ''second'' []), None)
                    else (None, Some (Failure ''err'')),
               \<lambda>c. if Written (Writer c) then (Some (RespTextPlain ''second'' []), None)
                    else (None, Some (Failure ''err''))]) =
     Some \<lparr>w_status = 200, w_committed = Some 200, w_body = ''{}second''\<rparr>
   \<and> serve (RecoverHandler (defaultRecoverHandlerResponse (\<lambda>v. Inr ''{}''))
            # route_handlers [\<lambda>c. (None, Some (Failure ''err'')),
                              \<lambda>c. (None, Some (Failure ''err''))]) = None"
  by (simp add: serve_def route_handlers_def lastn_def RecoverHandler_def handler_def
        ctx_IsAborted_def RespTextPlain_def
        new_ctx_def new_writer_def Let_def defaultRecoverHandlerResponse_def
        RespRestException_def SetDataResponse_def writeResponseData_def NewRespRest_def
        NewResponseData_def MIMEJSON_def MIMEPlain_def ctx_Data_def bodyAllowedForStatus_def
        gin_Written_def gin_WriteHeader_def gin_Write_def gin_WriteHeaderNow_def)

end
